theory Spec2Isabelle
  imports Complex_Main "HOL-Library.Sublist"
begin

section \<open>Data model: the Convex tables\<close>

text \<open>
  The documents of the Convex schema (\<open>convex/schema.ts\<close>), restricted to the columns
  that the modelled queries and mutations read or write. A table is the list of its
  documents in creation order, which is the order in which a full table scan
  (\<open>db.query(t).collect()\<close>) returns them. Document identifiers are opaque in
  Convex; they are natural numbers here. Timestamps are milliseconds since the Unix
  epoch (\<open>Date.now()\<close>) and may be negative for dates before 1970, so they are
  integers. The remaining \<open>v.number()\<close> columns hold finite doubles, read as the
  reals they denote (\<open>max_distance\<close>, the coordinates) or as integers (ages). What
  the query computes from them in double arithmetic is a \<open>number\<close>, see below.
\<close>

type_synonym doc_id = nat

record coords =
  latitude :: real
  longitude :: real

record user =
  u_id :: doc_id
  phone_number :: string
  first_name :: "string option"
  birth_date :: "int option"
  gender :: "string option"
  bio :: "string option"
  location :: "coords option"
  max_distance :: "real option"
  age_min :: "int option"
  age_max :: "int option"
  show_me :: "string option"

datatype swipe_action = Like | Pass

record swipe =
  s_id :: doc_id
  swiper_id :: doc_id
  swiped_id :: doc_id
  action :: swipe_action
  s_created_at :: int

record match =
  m_id :: doc_id
  user1_id :: doc_id
  user2_id :: doc_id
  matched_at :: int
  is_active :: bool
  m_created_at :: int

record message =
  msg_id :: doc_id
  match_id :: doc_id
  sender_id :: doc_id
  content :: string
  message_type :: string
  is_read :: bool
  sent_at :: int

record notification =
  n_id :: doc_id
  n_user_id :: doc_id
  n_type :: string
  n_related_id :: "doc_id option"
  n_title :: string
  n_message :: string
  n_is_read :: bool
  n_created_at :: int

record db =
  users :: "user list"
  swipes :: "swipe list"
  matches :: "match list"
  messages :: "message list"
  notifications :: "notification list"

text \<open>
  Every \<open>throw new Error(...)\<close> of the modelled handlers, and the failures of the
  calls they make: \<open>.unique()\<close> on a query with more than one result, \<open>db.patch\<close>
  of an identifier that names no document, a write that the schema rejects (with the
  offending column), a second use of one index range builder, and the call of a
  property that is no function. \<open>SwipeAlreadyRecorded\<close> is the Conflict of the
  specification.
\<close>

datatype error =
    NotAuthenticated
  | UserNotFound
  | SwipeAlreadyRecorded
  | Unauthorized
  | InactiveMatch
  | NotUnique
  | NoSuchDocument
  | SchemaValidation string
  | IndexRangeBuilderUsed
  | NotAFunction

section \<open>The Convex calls used by the handlers\<close>

text \<open>\<open>.unique()\<close>: the single result, null when there is none, an error when there are several.\<close>

fun unique :: "'a list \<Rightarrow> error + 'a option" where
  "unique [] = Inr None"
| "unique [x] = Inr (Some x)"
| "unique (x # y # zs) = Inl NotUnique"

text \<open>\<open>db.insert\<close> returns an identifier that no document of the table carries.\<close>

definition fresh_id :: "doc_id list \<Rightarrow> doc_id" where
  "fresh_id ids = Suc (fold max ids 0)"

text \<open>\<open>db.get(id)\<close>: the document with that identifier, or null.\<close>

definition get_match :: "doc_id \<Rightarrow> db \<Rightarrow> match option" where
  "get_match i d = find (\<lambda>m. m_id m = i) (matches d)"

text \<open>
  \<open>db.patch(id, fields)\<close>: shallow-merges the fields into the document with that
  identifier and fails when there is none. \<open>patch_doc\<close> takes the identifier column
  and the field update.
\<close>

fun patch_doc :: "('a \<Rightarrow> doc_id) \<Rightarrow> doc_id \<Rightarrow> ('a \<Rightarrow> 'a) \<Rightarrow> 'a list \<Rightarrow> 'a list option" where
  "patch_doc idf i upd [] = None"
| "patch_doc idf i upd (x # xs) =
     (if idf x = i then Some (upd x # xs)
      else (case patch_doc idf i upd xs of None \<Rightarrow> None | Some ys \<Rightarrow> Some (x # ys)))"

text \<open>
  The index range builder that \<open>withIndex(name, q => ...)\<close> hands to its range
  function. It offers \<open>eq\<close> (and the bounds \<open>gt\<close>, \<open>gte\<close>, \<open>lt\<close>, \<open>lte\<close>), to
  be chained as \<open>q.eq(...).eq(...)\<close>: \<open>eq\<close> marks the builder it is called on as
  used and returns a new builder with one more equality, and it throws
  "IndexRangeBuilder has already been used!" when the builder it is called on is
  marked. \<open>builder_eq\<close> returns the new builder and the receiver as the call leaves
  it. The range function runs inside \<open>withIndex\<close>, before the query reads anything.
\<close>

record index_range_builder =
  rangeExpressions :: "(string \<times> doc_id) list"
  isConsumed :: bool

definition new_builder :: index_range_builder where
  "new_builder = \<lparr>rangeExpressions = [], isConsumed = False\<rparr>"

definition builder_eq ::
  "string \<Rightarrow> doc_id \<Rightarrow> index_range_builder \<Rightarrow> error + index_range_builder \<times> index_range_builder" where
  "builder_eq fieldName v q =
     (if isConsumed q then Inl IndexRangeBuilderUsed
      else Inr (\<lparr>rangeExpressions = rangeExpressions q @ [(fieldName, v)], isConsumed = False\<rparr>,
                q\<lparr>isConsumed := True\<rparr>))"

text \<open>The documents of the swipes table that an index range selects.\<close>

definition swipe_field :: "string \<Rightarrow> swipe \<Rightarrow> doc_id option" where
  "swipe_field f s =
     (if f = ''swiper_id'' then Some (swiper_id s)
      else if f = ''swiped_id'' then Some (swiped_id s)
      else None)"

definition index_scan :: "index_range_builder \<Rightarrow> swipe list \<Rightarrow> swipe list" where
  "index_scan r ss =
     filter (\<lambda>s. list_all (\<lambda>e. swipe_field (fst e) s = Some (snd e)) (rangeExpressions r)) ss"

text \<open>
  The columns that \<open>defineTable\<close> declares for the matches table. The schema is
  enforced on every write: a document with a column that is not declared is rejected.
\<close>

definition matches_columns :: "string list" where
  "matches_columns = [''user1_id'', ''user2_id'', ''matched_at'', ''is_active'', ''created_at'']"

section \<open>Matching mutations\<close>

record swipe_result =
  r_swipe_id :: doc_id
  r_is_match :: bool
  r_match_id :: "doc_id option"

text \<open>
  A Convex mutation runs as a transaction. It is modelled as a function from the
  database to the outcome of the handler (the thrown error or the returned value)
  paired with the database it leaves: the handler's writes when it returns, the
  database it started from when it throws. \<open>now\<close> is the value of \<open>Date.now()\<close>.
\<close>

text \<open>
  The range function \<open>q => q.and(q.eq("swiper_id", a), q.eq("swiped_id", b))\<close> of both
  \<open>by_pair\<close> queries, applied to a new builder. JavaScript evaluates the two
  arguments, left to right, before it calls \<open>q.and\<close>; the builder has no \<open>and\<close>.
\<close>

definition by_pair_range :: "doc_id \<Rightarrow> doc_id \<Rightarrow> error + index_range_builder" where
  "by_pair_range a b =
     (case builder_eq ''swiper_id'' a new_builder of
        Inl e \<Rightarrow> Inl e
      | Inr (r1, q1) \<Rightarrow>
          (case builder_eq ''swiped_id'' b q1 of
             Inl e \<Rightarrow> Inl e
           | Inr (r2, q2) \<Rightarrow> Inl NotAFunction))"

definition recordSwipe ::
  "doc_id \<Rightarrow> doc_id \<Rightarrow> swipe_action \<Rightarrow> int \<Rightarrow> db \<Rightarrow> (error + swipe_result) \<times> db" where
  "recordSwipe swiper swiped act now d =
     (case by_pair_range swiper swiped of
        Inl e \<Rightarrow> (Inl e, d)
      | Inr r \<Rightarrow>
     (case unique (index_scan r (swipes d)) of
        Inl e \<Rightarrow> (Inl e, d)
      | Inr (Some existingSwipe) \<Rightarrow> (Inl SwipeAlreadyRecorded, d)
      | Inr None \<Rightarrow>
          (let swipeId = fresh_id (map s_id (swipes d));
               d1 = d\<lparr>swipes := swipes d @
                      [\<lparr>s_id = swipeId, swiper_id = swiper, swiped_id = swiped,
                        action = act, s_created_at = now\<rparr>]\<rparr>
           in if act = Like then
                (case by_pair_range swiped swiper of
                   Inl e \<Rightarrow> (Inl e, d)
                 | Inr r' \<Rightarrow>
                (case unique (filter (\<lambda>s. action s = Like) (index_scan r' (swipes d1))) of
                   Inl e \<Rightarrow> (Inl e, d)
                 | Inr (Some reverseSwipe) \<Rightarrow>
                     (let matchId = fresh_id (map m_id (matches d1));
                          d2 = d1\<lparr>matches := matches d1 @
                                 [\<lparr>m_id = matchId, user1_id = swiper, user2_id = swiped,
                                   matched_at = now, is_active = True, m_created_at = now\<rparr>]\<rparr>
                      in (Inr \<lparr>r_swipe_id = swipeId, r_is_match = True, r_match_id = Some matchId\<rparr>, d2))
                 | Inr None \<Rightarrow>
                     (Inr \<lparr>r_swipe_id = swipeId, r_is_match = False, r_match_id = None\<rparr>, d1)))
              else (Inr \<lparr>r_swipe_id = swipeId, r_is_match = False, r_match_id = None\<rparr>, d1))))"

text \<open>
  \<open>unmatchUsers\<close> patches the match with \<open>is_active\<close> and \<open>updated_at\<close>. The patch
  fails when no match has the identifier, and the schema rejects the patched document
  when a patched column is not declared for the table.
\<close>

definition unmatchUsers :: "doc_id \<Rightarrow> int \<Rightarrow> db \<Rightarrow> (error + unit) \<times> db" where
  "unmatchUsers mid now d =
     (case get_match mid d of
        None \<Rightarrow> (Inl NoSuchDocument, d)
      | Some m \<Rightarrow>
          (case filter (\<lambda>c. c \<notin> set matches_columns) [''is_active'', ''updated_at''] of
             c # cs \<Rightarrow> (Inl (SchemaValidation c), d)
           | [] \<Rightarrow>
               (case patch_doc m_id mid (\<lambda>m. m\<lparr>is_active := False\<rparr>) (matches d) of
                  None \<Rightarrow> (Inl NoSuchDocument, d)
                | Some ms \<Rightarrow> (Inr (), d\<lparr>matches := ms\<rparr>))))"

text \<open>
  Calls of \<open>recordSwipe\<close> run one after the other, each with its own clock reading:
  the outcomes in order, and the database after the last.
\<close>

fun run_swipes ::
  "(doc_id \<times> doc_id \<times> swipe_action \<times> int) list \<Rightarrow> db \<Rightarrow> (error + swipe_result) list \<times> db" where
  "run_swipes [] d = ([], d)"
| "run_swipes ((a, b, act, now) # cs) d =
     (case recordSwipe a b act now d of
        (r, d') \<Rightarrow> (case run_swipes cs d' of (rs, d'') \<Rightarrow> (r # rs, d'')))"

text \<open>Whether a like of \<open>a\<close> for \<open>b\<close> is stored.\<close>

definition has_like :: "doc_id \<Rightarrow> doc_id \<Rightarrow> db \<Rightarrow> bool" where
  "has_like a b d =
     list_ex (\<lambda>s. swiper_id s = a \<and> swiped_id s = b \<and> action s = Like) (swipes d)"

section \<open>Messaging mutations\<close>

definition sendMessage ::
  "doc_id \<Rightarrow> doc_id \<Rightarrow> string \<Rightarrow> string option \<Rightarrow> int \<Rightarrow> db \<Rightarrow> (error + doc_id) \<times> db" where
  "sendMessage mid sender cont mtype now d =
     (case get_match mid d of
        None \<Rightarrow> (Inl Unauthorized, d)
      | Some m \<Rightarrow>
          if user1_id m \<noteq> sender \<and> user2_id m \<noteq> sender then (Inl Unauthorized, d)
          else if \<not> is_active m then (Inl InactiveMatch, d)
          else
            (let messageId = fresh_id (map msg_id (messages d));
                 d1 = d\<lparr>messages := messages d @
                        [\<lparr>msg_id = messageId, match_id = mid, sender_id = sender,
                          content = cont,
                          message_type = (case mtype of None \<Rightarrow> ''text'' | Some t \<Rightarrow> t),
                          is_read = False, sent_at = now\<rparr>]\<rparr>;
                 recipientId = (if user1_id m = sender then user2_id m else user1_id m);
                 d2 = d1\<lparr>notifications := notifications d1 @
                        [\<lparr>n_id = fresh_id (map n_id (notifications d1)),
                          n_user_id = recipientId, n_type = ''new_message'',
                          n_related_id = Some messageId, n_title = ''New Message'',
                          n_message = (if length cont > 50 then take 50 cont @ ''...'' else cont),
                          n_is_read = False, n_created_at = now\<rparr>]\<rparr>
             in (Inr messageId, d2)))"

definition markMessageAsRead :: "doc_id \<Rightarrow> db \<Rightarrow> (error + unit) \<times> db" where
  "markMessageAsRead mid d =
     (case patch_doc msg_id mid (\<lambda>m. m\<lparr>is_read := True\<rparr>) (messages d) of
        None \<Rightarrow> (Inl NoSuchDocument, d)
      | Some ms \<Rightarrow> (Inr (), d\<lparr>messages := ms\<rparr>))"

text \<open>
  The \<open>for\<close> loop of \<open>markConversationAsRead\<close>: one patch per collected message,
  with the database as the patches so far have left it.
\<close>

fun mark_each :: "message list \<Rightarrow> db \<Rightarrow> (error + unit) \<times> db" where
  "mark_each [] d = (Inr (), d)"
| "mark_each (x # xs) d =
     (case markMessageAsRead (msg_id x) d of
        (Inl e, d') \<Rightarrow> (Inl e, d')
      | (Inr u, d') \<Rightarrow> mark_each xs d')"

definition markConversationAsRead :: "doc_id \<Rightarrow> doc_id \<Rightarrow> db \<Rightarrow> (error + unit) \<times> db" where
  "markConversationAsRead mid uid d =
     (case get_match mid d of
        None \<Rightarrow> (Inr (), d)
      | Some m \<Rightarrow>
          (let otherUserId = (if user1_id m = uid then user2_id m else user1_id m);
               unreadMessages =
                 filter (\<lambda>x. is_read x = False \<and> sender_id x = otherUserId)
                   (filter (\<lambda>x. match_id x = mid) (messages d))
           in case mark_each unreadMessages d of
                (Inl e, d') \<Rightarrow> (Inl e, d)
              | (Inr u, d') \<Rightarrow> (Inr u, d')))"

section \<open>The operations of the core as one step function\<close>

datatype op =
    RecordSwipe doc_id doc_id swipe_action
  | UnmatchUsers doc_id
  | SendMessage doc_id doc_id string "string option"
  | MarkMessageAsRead doc_id
  | MarkConversationAsRead doc_id doc_id

fun exec :: "op \<Rightarrow> int \<Rightarrow> db \<Rightarrow> db" where
  "exec (RecordSwipe a b act) now d = snd (recordSwipe a b act now d)"
| "exec (UnmatchUsers m) now d = snd (unmatchUsers m now d)"
| "exec (SendMessage m s c t) now d = snd (sendMessage m s c t now d)"
| "exec (MarkMessageAsRead i) now d = snd (markMessageAsRead i d)"
| "exec (MarkConversationAsRead m u) now d = snd (markConversationAsRead m u d)"

text \<open>
  The invariant of the matches table: two distinct participants, at most one match per
  unordered pair, and both directed likes recorded.
\<close>

definition unordered_pair :: "match \<Rightarrow> doc_id \<times> doc_id" where
  "unordered_pair m = (min (user1_id m) (user2_id m), max (user1_id m) (user2_id m))"

definition match_inv :: "db \<Rightarrow> bool" where
  "match_inv d =
     (list_all (\<lambda>m. user1_id m \<noteq> user2_id m
                   \<and> has_like (user1_id m) (user2_id m) d
                   \<and> has_like (user2_id m) (user1_id m) d) (matches d)
      \<and> distinct (map unordered_pair (matches d)))"

definition empty_db :: db where
  "empty_db = \<lparr>users = [], swipes = [], matches = [], messages = [], notifications = []\<rparr>"

section \<open>Discovery feed\<close>

subsection \<open>The JavaScript built-ins the query uses\<close>

text \<open>
  \<open>new Date(t)\<close> with \<open>getFullYear\<close>, \<open>getMonth\<close> and \<open>getDate\<close>: the
  proleptic Gregorian date of the day \<open>floor (t / 86400000)\<close>, read in UTC (the time
  zone of the Convex runtime). \<open>civil_from_days\<close> returns year, month (1 to 12) and
  day of month of a day number counted from 1970-01-01.
\<close>

definition civil_from_days :: "int \<Rightarrow> int \<times> int \<times> int" where
  "civil_from_days z0 =
     (let z = z0 + 719468;
          era = z div 146097;
          doe = z - era * 146097;
          yoe = (doe - doe div 1460 + doe div 36524 - doe div 146096) div 365;
          doy = doe - (365 * yoe + yoe div 4 - yoe div 100);
          mp = (5 * doy + 2) div 153;
          dd = doy - (153 * mp + 2) div 5 + 1;
          mm = (if mp < 10 then mp + 3 else mp - 9);
          yy = yoe + era * 400
      in (if mm \<le> 2 then yy + 1 else yy, mm, dd))"

definition getFullYear :: "int \<Rightarrow> int" where
  "getFullYear t = fst (civil_from_days (t div 86400000))"

definition getMonth :: "int \<Rightarrow> int" where
  "getMonth t = fst (snd (civil_from_days (t div 86400000))) - 1"

definition getDate :: "int \<Rightarrow> int" where
  "getDate t = snd (snd (civil_from_days (t div 86400000)))"

text \<open>
  A value of double arithmetic: a finite double, read as the real it denotes, one of
  the two infinities, or NaN.
\<close>

datatype number = Num real | PosInf | NegInf | NaN

text \<open>
  The double operations of the JavaScript engine that \<open>calculateDistance\<close>, the sort
  comparator and the rounding of \<open>distance_km\<close> use: \<open>+\<close>, \<open>-\<close>, \<open>*\<close>, \<open>/\<close>,
  \<open>Math.sin\<close>, \<open>Math.cos\<close>, \<open>Math.sqrt\<close>, \<open>Math.atan2\<close> and the constant
  \<open>Math.PI\<close>. Their results depend on rounding, and for the trigonometric functions
  on the engine, so the model takes them as a parameter and assumes nothing about
  them: whatever rounding, overflow or NaN the engine produces is a value of the
  parameter.
\<close>

record float_ops =
  f_add :: "number \<Rightarrow> number \<Rightarrow> number"
  f_sub :: "number \<Rightarrow> number \<Rightarrow> number"
  f_mul :: "number \<Rightarrow> number \<Rightarrow> number"
  f_div :: "number \<Rightarrow> number \<Rightarrow> number"
  f_sin :: "number \<Rightarrow> number"
  f_cos :: "number \<Rightarrow> number"
  f_sqrt :: "number \<Rightarrow> number"
  f_atan2 :: "number \<Rightarrow> number \<Rightarrow> number"
  f_pi :: number

text \<open>
  The comparison \<open>x > y\<close> of a computed value with a stored one, and the sign tests
  that \<open>Array.prototype.sort\<close> applies to the value of its comparator. Every
  comparison with NaN is false.
\<close>

fun number_gt :: "number \<Rightarrow> real \<Rightarrow> bool" where
  "number_gt (Num x) y = (x > y)"
| "number_gt PosInf y = True"
| "number_gt NegInf y = False"
| "number_gt NaN y = False"

fun is_positive :: "number \<Rightarrow> bool" where
  "is_positive (Num x) = (x > 0)"
| "is_positive PosInf = True"
| "is_positive NegInf = False"
| "is_positive NaN = False"

text \<open>
  \<open>Math.round\<close>: the nearest integer, a half rounded up; infinities and NaN are
  returned as they are.
\<close>

fun math_round :: "number \<Rightarrow> number" where
  "math_round (Num x) = Num (real_of_int \<lfloor>x + 1 / 2\<rfloor>)"
| "math_round PosInf = PosInf"
| "math_round NegInf = NegInf"
| "math_round NaN = NaN"

text \<open>
  \<open>Array.prototype.sort\<close> with a comparator is stable: \<open>b\<close> is moved before \<open>a\<close> only
  when the comparator is positive on \<open>(a, b)\<close>, and a comparator value of NaN counts as
  0. It is modelled as the stable insertion sort driven by \<open>after a b\<close>, "the
  comparator is positive on \<open>(a, b)\<close>". (When the comparator is not consistent, which
  takes a NaN among the keys, the language leaves the order to the engine.)
\<close>

fun insert_by :: "('a \<Rightarrow> 'a \<Rightarrow> bool) \<Rightarrow> 'a \<Rightarrow> 'a list \<Rightarrow> 'a list" where
  "insert_by after x [] = [x]"
| "insert_by after x (y # ys) = (if after x y then y # insert_by after x ys else x # y # ys)"

definition sort_by :: "('a \<Rightarrow> 'a \<Rightarrow> bool) \<Rightarrow> 'a list \<Rightarrow> 'a list" where
  "sort_by after xs = foldr (insert_by after) xs []"

text \<open>\<open>String.prototype.toLowerCase\<close> on ASCII letters.\<close>

definition toLowerCase :: "string \<Rightarrow> string" where
  "toLowerCase s =
     map (\<lambda>c. if 65 \<le> (of_char c :: nat) \<and> (of_char c :: nat) \<le> 90
               then char_of ((of_char c :: nat) + 32) else c) s"

text \<open>
  \<open>Array.prototype.slice(start, end)\<close> for integer arguments: a negative index counts
  from the end of the array, and both are clamped to the array.
\<close>

definition js_slice :: "int \<Rightarrow> int \<Rightarrow> 'a list \<Rightarrow> 'a list" where
  "js_slice start fin xs =
     (let len = int (length xs);
          k = (if start < 0 then max (len + start) 0 else min start len);
          final = (if fin < 0 then max (len + fin) 0 else min fin len)
      in take (nat (final - k)) (drop (nat k) xs))"

subsection \<open>The helpers of \<open>convex/queries/discovery.ts\<close>\<close>

text \<open>\<open>calculateAge\<close>; the second argument is the current time that \<open>new Date()\<close> reads.\<close>

definition calculateAge :: "int \<Rightarrow> int \<Rightarrow> int" where
  "calculateAge birthDateTimestamp today =
     (let age = getFullYear today - getFullYear birthDateTimestamp;
          monthDiff = getMonth today - getMonth birthDateTimestamp
      in if monthDiff < 0 \<or> (monthDiff = 0 \<and> getDate today < getDate birthDateTimestamp)
         then age - 1 else age)"

text \<open>\<open>calculateDistance\<close>, operation by operation, in the arithmetic \<open>fp\<close>.\<close>

definition calculateDistance :: "float_ops \<Rightarrow> coords \<Rightarrow> coords \<Rightarrow> number" where
  "calculateDistance fp loc1 loc2 =
     (let R = Num 6371;
          dLat = f_div fp (f_mul fp (f_sub fp (Num (latitude loc2)) (Num (latitude loc1))) (f_pi fp))
                   (Num 180);
          dLon = f_div fp (f_mul fp (f_sub fp (Num (longitude loc2)) (Num (longitude loc1))) (f_pi fp))
                   (Num 180);
          a = f_add fp
                (f_mul fp (f_sin fp (f_div fp dLat (Num 2))) (f_sin fp (f_div fp dLat (Num 2))))
                (f_mul fp
                   (f_mul fp
                      (f_mul fp
                         (f_cos fp (f_div fp (f_mul fp (Num (latitude loc1)) (f_pi fp)) (Num 180)))
                         (f_cos fp (f_div fp (f_mul fp (Num (latitude loc2)) (f_pi fp)) (Num 180))))
                      (f_sin fp (f_div fp dLon (Num 2))))
                   (f_sin fp (f_div fp dLon (Num 2))));
          c = f_mul fp (Num 2) (f_atan2 fp (f_sqrt fp a) (f_sqrt fp (f_sub fp (Num 1) a)))
      in f_mul fp R c)"

subsection \<open>\<open>getDiscoveryFeed\<close>\<close>

record feed_entry =
  fe_user_id :: doc_id
  fe_first_name :: "string option"
  fe_age :: "int option"
  fe_bio :: "string option"
  fe_distance_km :: number
  fe_photos :: "string list"

text \<open>
  \<open>potentialUsers\<close>: the table scan with the age-range, not-self and has-location
  filter. A document without \<open>birth_date\<close> fails both comparisons.
\<close>

definition potentialUsers :: "user \<Rightarrow> int \<Rightarrow> db \<Rightarrow> user list" where
  "potentialUsers currentUser now d =
     (let ageMin = (case age_min currentUser of None \<Rightarrow> 18 | Some v \<Rightarrow> v);
          ageMax = (case age_max currentUser of None \<Rightarrow> 100 | Some v \<Rightarrow> v);
          minBirthDate = now - (ageMax * 365 * 24 * 60 * 60 * 1000);
          maxBirthDate = now - (ageMin * 365 * 24 * 60 * 60 * 1000)
      in filter (\<lambda>u. (case birth_date u of
                         None \<Rightarrow> False
                       | Some b \<Rightarrow> b > minBirthDate \<and> b < maxBirthDate)
                     \<and> u_id u \<noteq> u_id currentUser
                     \<and> location u \<noteq> None) (users d))"

text \<open>
  The distance from the requester's location to a user's; every user that reaches this
  call has a location (\<open>potentialUsers\<close> keeps no other), which is what the source's
  \<open>user.location!\<close> relies on.
\<close>

definition distance_to :: "float_ops \<Rightarrow> coords \<Rightarrow> user \<Rightarrow> number" where
  "distance_to fp loc u =
     (case location u of Some l \<Rightarrow> calculateDistance fp loc l | None \<Rightarrow> Num 0)"

text \<open>
  The callback of \<open>filter\<close>: distance and show-me check. A distance that is NaN is not
  greater than \<open>maxDistance\<close>, so it passes.
\<close>

definition passes_filter :: "float_ops \<Rightarrow> user \<Rightarrow> coords \<Rightarrow> user \<Rightarrow> bool" where
  "passes_filter fp currentUser loc u =
     (let maxDistance = (case max_distance currentUser of None \<Rightarrow> 50 | Some v \<Rightarrow> v);
          showMe = (case show_me currentUser of None \<Rightarrow> ''everyone'' | Some v \<Rightarrow> v);
          distance = distance_to fp loc u
      in if number_gt distance maxDistance then False
         else if showMe \<noteq> ''everyone'' then
           (let userGender = map_option toLowerCase (gender u);
                showPreference = toLowerCase showMe
            in if showPreference = ''men'' \<and> userGender \<noteq> Some ''male'' then False
               else if showPreference = ''women'' \<and> userGender \<noteq> Some ''female'' then False
               else True)
         else True)"

text \<open>The filtered users, each paired with its distance: the array that is sorted.\<close>

definition withDistance :: "float_ops \<Rightarrow> user \<Rightarrow> coords \<Rightarrow> int \<Rightarrow> db \<Rightarrow> (user \<times> number) list" where
  "withDistance fp currentUser loc now d =
     map (\<lambda>u. (u, distance_to fp loc u))
       (filter (passes_filter fp currentUser loc) (potentialUsers currentUser now d))"

text \<open>\<open>filteredUsers\<close>: sorted with the comparator \<open>a.distance - b.distance\<close>.\<close>

definition filteredUsers :: "float_ops \<Rightarrow> user \<Rightarrow> coords \<Rightarrow> int \<Rightarrow> db \<Rightarrow> (user \<times> number) list" where
  "filteredUsers fp currentUser loc now d =
     sort_by (\<lambda>a b. is_positive (f_sub fp (snd a) (snd b))) (withDistance fp currentUser loc now d)"

definition unswipedUsers :: "float_ops \<Rightarrow> user \<Rightarrow> coords \<Rightarrow> int \<Rightarrow> db \<Rightarrow> (user \<times> number) list" where
  "unswipedUsers fp currentUser loc now d =
     (let swipes' = filter (\<lambda>s. swiper_id s = u_id currentUser) (swipes d);
          swipedIds = set (map swiped_id swipes')
      in filter (\<lambda>p. u_id (fst p) \<notin> swipedIds) (filteredUsers fp currentUser loc now d))"

definition to_entry :: "float_ops \<Rightarrow> int \<Rightarrow> user \<times> number \<Rightarrow> feed_entry" where
  "to_entry fp now p =
     \<lparr>fe_user_id = u_id (fst p),
      fe_first_name = first_name (fst p),
      fe_age = (case birth_date (fst p) of
                  None \<Rightarrow> None
                | Some b \<Rightarrow> if b = 0 then None else Some (calculateAge b now)),
      fe_bio = bio (fst p),
      fe_distance_km = f_div fp (math_round (f_mul fp (snd p) (Num 10))) (Num 10),
      fe_photos = []\<rparr>"

text \<open>
  The handler. \<open>identity\<close> is the phone number of \<open>auth.getUserIdentity()\<close>, absent
  when the caller is not authenticated; \<open>now\<close> is what \<open>Date.now()\<close> returns in this
  call; \<open>limit\<close> and \<open>offset\<close> are the optional arguments with their defaults 20 and
  0. A birth date is falsy when it is absent or 0.
\<close>

definition getDiscoveryFeed ::
  "float_ops \<Rightarrow> string option \<Rightarrow> int \<Rightarrow> int option \<Rightarrow> int option \<Rightarrow> db \<Rightarrow> error + feed_entry list" where
  "getDiscoveryFeed fp identity now limit_arg offset_arg d =
     (let limit = (case limit_arg of None \<Rightarrow> 20 | Some v \<Rightarrow> v);
          offset = (case offset_arg of None \<Rightarrow> 0 | Some v \<Rightarrow> v)
      in case identity of
           None \<Rightarrow> Inl NotAuthenticated
         | Some phone \<Rightarrow>
             (case unique (filter (\<lambda>u. phone_number u = phone) (users d)) of
                Inl e \<Rightarrow> Inl e
              | Inr None \<Rightarrow> Inl UserNotFound
              | Inr (Some currentUser) \<Rightarrow>
                  (case location currentUser of
                     None \<Rightarrow> Inr []
                   | Some loc \<Rightarrow>
                       if birth_date currentUser = None \<or> birth_date currentUser = Some 0
                       then Inr []
                       else Inr (map (to_entry fp now)
                                   (js_slice offset (offset + limit)
                                      (unswipedUsers fp currentUser loc now d))))))"

text \<open>
  The full ordered candidate list of a call: the feed with offset 0 and a limit that
  no candidate list exceeds, the number of stored users.
\<close>

definition all_candidates :: "float_ops \<Rightarrow> string option \<Rightarrow> int \<Rightarrow> db \<Rightarrow> error + feed_entry list" where
  "all_candidates fp identity now d =
     getDiscoveryFeed fp identity now (Some (int (length (users d)))) (Some 0) d"





text \<open>
  An arithmetic without rounding, for the concrete databases: the exact operations on
  the finite values, with NaN for the square root of a negative number, for anything
  that is not finite, and for a division by zero.
\<close>

fun lift1 :: "(real \<Rightarrow> real) \<Rightarrow> number \<Rightarrow> number" where
  "lift1 g (Num x) = Num (g x)"
| "lift1 g a = NaN"

fun lift2 :: "(real \<Rightarrow> real \<Rightarrow> real) \<Rightarrow> number \<Rightarrow> number \<Rightarrow> number" where
  "lift2 g (Num x) (Num y) = Num (g x y)"
| "lift2 g a b = NaN"

fun exact_sqrt :: "number \<Rightarrow> number" where
  "exact_sqrt (Num x) = (if x < 0 then NaN else Num (sqrt x))"
| "exact_sqrt a = NaN"

fun exact_div :: "number \<Rightarrow> number \<Rightarrow> number" where
  "exact_div (Num x) (Num y) = (if y = 0 then NaN else Num (x / y))"
| "exact_div a b = NaN"

definition atan2 :: "real \<Rightarrow> real \<Rightarrow> real" where
  "atan2 y x =
     (if 0 < x then arctan (y / x)
      else if x < 0 then (if 0 \<le> y then arctan (y / x) + pi else arctan (y / x) - pi)
      else if 0 < y then pi / 2
      else if y < 0 then - (pi / 2)
      else 0)"

definition exact_ops :: float_ops where
  "exact_ops =
     \<lparr>f_add = lift2 (+), f_sub = lift2 (-), f_mul = lift2 (*), f_div = exact_div,
      f_sin = lift1 sin, f_cos = lift1 cos, f_sqrt = exact_sqrt, f_atan2 = lift2 atan2,
      f_pi = Num pi\<rparr>"

section \<open>Concrete databases\<close>

text \<open>
  Users for the discovery feed. All of them live at the same coordinate and keep the
  preferences of the specification's example: 50 km, ages 25 to 35, everyone.
  \<open>now0\<close> is 2026-03-01 12:00 UTC. The requester was born on 1996-03-01
  (\<open>825638400000\<close>); \<open>983664000000\<close> is 2001-03-04.
\<close>

definition home :: coords where
  "home = \<lparr>latitude = 40, longitude = - 74\<rparr>"

definition mk_user :: "doc_id \<Rightarrow> string \<Rightarrow> int \<Rightarrow> user" where
  "mk_user i ph b =
     \<lparr>u_id = i, phone_number = ph, first_name = None, birth_date = Some b, gender = None,
      bio = None, location = Some home, max_distance = Some 50, age_min = Some 25,
      age_max = Some 35, show_me = Some ''everyone''\<rparr>"

definition requester :: user where
  "requester = mk_user 1 ''+15550001'' 825638400000"

definition now0 :: int where
  "now0 = 1772366400000"

text \<open>One and two minutes later.\<close>

definition now1 :: int where
  "now1 = now0 + 60000"

definition now2 :: int where
  "now2 = now0 + 120000"

definition entry :: "doc_id \<Rightarrow> int \<Rightarrow> feed_entry" where
  "entry i a = \<lparr>fe_user_id = i, fe_first_name = None, fe_age = Some a, fe_bio = None,
     fe_distance_km = Num 0, fe_photos = []\<rparr>"

definition db_of :: "user list \<Rightarrow> db" where
  "db_of us = empty_db\<lparr>users := us\<rparr>"

text \<open>The requester has no location.\<close>

definition db_c5 :: db where
  "db_c5 = db_of [requester\<lparr>location := None\<rparr>, mk_user 2 ''+15550002'' 825638400000]"

text \<open>One candidate, born 2001-03-04: three days short of 25 on 2026-03-01.\<close>

definition db_c6 :: db where
  "db_c6 = db_of [requester, mk_user 2 ''+15550002'' 983664000000]"

text \<open>The same two candidates, stored in either order.\<close>

definition db_c7a :: db where
  "db_c7a = db_of [requester, mk_user 3 ''+15550003'' 825638400000, mk_user 2 ''+15550002'' 825638400000]"

definition db_c7b :: db where
  "db_c7b = db_of [requester, mk_user 2 ''+15550002'' 825638400000, mk_user 3 ''+15550003'' 825638400000]"





text \<open>Five eligible candidates.\<close>

definition db_c8 :: db where
  "db_c8 = db_of [requester, mk_user 2 ''+15550002'' 825638400000, mk_user 3 ''+15550003'' 825638400000,
     mk_user 4 ''+15550004'' 825638400000, mk_user 5 ''+15550005'' 825638400000,
     mk_user 6 ''+15550006'' 825638400000]"

text \<open>An active match of users 1 and 2, and an inactive one of users 1 and 3.\<close>

definition db_c9 :: db where
  "db_c9 = empty_db\<lparr>matches :=
     [\<lparr>m_id = 1, user1_id = 1, user2_id = 2, matched_at = 5, is_active = True,
       m_created_at = 5\<rparr>,
      \<lparr>m_id = 2, user1_id = 1, user2_id = 3, matched_at = 6, is_active = False,
       m_created_at = 6\<rparr>]\<rparr>"

text \<open>A match of users 1 and 2 with one unread message, sent by user 1.\<close>

definition db_c10 :: db where
  "db_c10 = empty_db\<lparr>
     matches := [\<lparr>m_id = 1, user1_id = 1, user2_id = 2, matched_at = 5, is_active = True,
       m_created_at = 5\<rparr>],
     messages := [\<lparr>msg_id = 1, match_id = 1, sender_id = 1, content = ''hi'',
       message_type = ''text'', is_read = False, sent_at = 6\<rparr>]\<rparr>"

text \<open>Users 1 and 2 have liked each other and are matched.\<close>

definition db_c4 :: db where
  "db_c4 = empty_db\<lparr>
     swipes := [\<lparr>s_id = 1, swiper_id = 2, swiped_id = 1, action = Like, s_created_at = 5\<rparr>,
                \<lparr>s_id = 2, swiper_id = 1, swiped_id = 2, action = Like, s_created_at = 6\<rparr>],
     matches := [\<lparr>m_id = 1, user1_id = 1, user2_id = 2, matched_at = 6, is_active = True,
       m_created_at = 6\<rparr>]\<rparr>"

section \<open>Lemmas about the Convex calls\<close>

lemma fold_max_ge: "fold max ids (a::nat) \<ge> a"
  by (induction ids arbitrary: a) (auto intro: order_trans[OF max.cobounded2])

lemma fold_max_upper: "x \<in> set ids \<Longrightarrow> x \<le> fold max ids (a::nat)"
proof (induction ids arbitrary: a)
  case Nil
  then show ?case by simp
next
  case (Cons y ys)
  show ?case
  proof (cases "x = y")
    case True
    have "y \<le> max y a" by simp
    also have "\<dots> \<le> fold max ys (max y a)" by (rule fold_max_ge)
    finally show ?thesis using True by simp
  next
    case False
    with Cons show ?thesis by simp
  qed
qed

lemma fresh_id_notin: "fresh_id ids \<notin> set ids"
proof
  assume "fresh_id ids \<in> set ids"
  then have "fresh_id ids \<le> fold max ids 0" by (rule fold_max_upper)
  then show False by (simp add: fresh_id_def)
qed

lemma patch_doc_None: "patch_doc idf i upd xs = None \<longleftrightarrow> i \<notin> idf ` set xs"
  by (induction xs) (auto split: option.splits)

lemma patch_doc_Some:
  "patch_doc idf i upd xs = Some ys \<Longrightarrow>
     \<exists>pre x post. xs = pre @ x # post \<and> idf x = i \<and> i \<notin> idf ` set pre \<and> ys = pre @ upd x # post"
proof (induction xs arbitrary: ys)
  case Nil
  then show ?case by simp
next
  case (Cons a as)
  show ?case
  proof (cases "idf a = i")
    case True
    with Cons.prems have "ys = upd a # as" by simp
    with True have "a # as = [] @ a # as \<and> idf a = i \<and> i \<notin> idf ` set [] \<and> ys = [] @ upd a # as"
      by simp
    then show ?thesis by blast
  next
    case False
    with Cons.prems obtain zs where z: "patch_doc idf i upd as = Some zs" and ys: "ys = a # zs"
      by (auto split: option.splits)
    from Cons.IH[OF z] obtain pre x post where
      "as = pre @ x # post" "idf x = i" "i \<notin> idf ` set pre" "zs = pre @ upd x # post"
      by blast
    with False ys have "a # as = (a # pre) @ x # post \<and> idf x = i \<and> i \<notin> idf ` set (a # pre)
        \<and> ys = (a # pre) @ upd x # post"
      by auto
    then show ?thesis by blast
  qed
qed

text \<open>
  The range function of the two \<open>by_pair\<close> queries calls \<open>q.eq\<close> twice on the builder
  it is given, so the second call throws: \<open>withIndex\<close> never returns a query.
\<close>

lemma by_pair_range_throws: "by_pair_range a b = Inl IndexRangeBuilderUsed"
  by (simp add: by_pair_range_def builder_eq_def new_builder_def)

lemma recordSwipe_throws: "recordSwipe a b act now d = (Inl IndexRangeBuilderUsed, d)"
  by (simp add: recordSwipe_def by_pair_range_throws)

lemma unmatchUsers_db: "snd (unmatchUsers m now d) = d"
  by (simp add: unmatchUsers_def matches_columns_def split: option.splits)

section \<open>recordSwipe\<close>

text \<open>
  Claim C1. The claim has \<open>recordSwipe A B like\<close> record the swipe and, when the like
  (B, A) is stored, create one active match and return \<open>is_match = true\<close>. The
  handler throws "IndexRangeBuilder has already been used!" in its first statement, on
  every call and in every database, whatever is stored: it records no swipe, creates
  no match and returns nothing.
\<close>

theorem recordSwipe_stores_nothing:
  "fst (recordSwipe A B act now d) = Inl IndexRangeBuilderUsed
   \<and> swipes (snd (recordSwipe A B act now d)) = swipes d
   \<and> matches (snd (recordSwipe A B act now d)) = matches d"
  by (simp add: recordSwipe_def by_pair_range_throws)

text \<open>
  Claim C2. The claim has a second \<open>recordSwipe\<close> on the same pair fail with the
  Conflict error "Swipe already recorded". The handler never reaches the statement
  that throws it: in every database, and so also when the swipe (A, B) is stored, the
  call fails with another error, and the database is the one it started from.
\<close>

theorem recordSwipe_no_conflict_error:
  "fst (recordSwipe A B act now d) \<noteq> Inl SwipeAlreadyRecorded
   \<and> snd (recordSwipe A B act now d) = d"
  by (simp add: recordSwipe_def by_pair_range_throws)

text \<open>
  Claim C3. A mutation runs as a transaction, so two overlapping calls have the effect
  of the two calls run one after the other, in one of the two orders (and each of
  these calls throws in its first statement, before its first \<open>await\<close>). In both
  orders both calls throw and the database is unchanged: the mutual likes create no
  match, where the claim requires exactly one.
\<close>

theorem mutual_likes_create_no_match:
  "run_swipes [(A, B, Like, t1), (B, A, Like, t2)] d
     = ([Inl IndexRangeBuilderUsed, Inl IndexRangeBuilderUsed], d)
   \<and> run_swipes [(B, A, Like, t2), (A, B, Like, t1)] d
     = ([Inl IndexRangeBuilderUsed, Inl IndexRangeBuilderUsed], d)"
  by (simp add: recordSwipe_throws)

section \<open>The invariant of the matches table\<close>

lemma has_like_swipes: "swipes d' = swipes d \<Longrightarrow> has_like a b d' = has_like a b d"
  by (simp add: has_like_def)

lemma match_inv_cong:
  assumes "swipes d' = swipes d" and "matches d' = matches d"
  shows "match_inv d' = match_inv d"
  using assms has_like_swipes[OF assms(1)] by (simp add: match_inv_def)

lemma markMessageAsRead_tables:
  "swipes (snd (markMessageAsRead i d)) = swipes d \<and> matches (snd (markMessageAsRead i d)) = matches d"
  by (simp add: markMessageAsRead_def split: option.splits)

lemma mark_each_tables:
  "swipes (snd (mark_each xs d)) = swipes d \<and> matches (snd (mark_each xs d)) = matches d"
proof (induction xs arbitrary: d)
  case Nil
  then show ?case by simp
next
  case (Cons x xs)
  obtain r d' where r: "markMessageAsRead (msg_id x) d = (r, d')" by (cases "markMessageAsRead (msg_id x) d")
  with markMessageAsRead_tables[of "msg_id x" d] have t: "swipes d' = swipes d" "matches d' = matches d"
    by simp_all
  show ?case
  proof (cases r)
    case (Inl e)
    with r t show ?thesis by simp
  next
    case (Inr u)
    with r t Cons.IH[of d'] show ?thesis by simp
  qed
qed

lemma mark_each_rollback_tables:
  "swipes (snd (case mark_each xs d of (Inl e, d') \<Rightarrow> (Inl e, d) | (Inr u, d') \<Rightarrow> (Inr u, d'))) = swipes d
   \<and> matches (snd (case mark_each xs d of (Inl e, d') \<Rightarrow> (Inl e, d) | (Inr u, d') \<Rightarrow> (Inr u, d'))) = matches d"
proof -
  obtain r d' where r: "mark_each xs d = (r, d')" by (cases "mark_each xs d")
  with mark_each_tables[of xs d] have "swipes d' = swipes d" "matches d' = matches d" by simp_all
  with r show ?thesis by (cases r) simp_all
qed

lemma markConversationAsRead_tables:
  "swipes (snd (markConversationAsRead m u d)) = swipes d
   \<and> matches (snd (markConversationAsRead m u d)) = matches d"
  unfolding markConversationAsRead_def Let_def
  by (cases "get_match m d") (simp_all only: option.case snd_conv mark_each_rollback_tables simp_thms)

lemma sendMessage_tables:
  "swipes (snd (sendMessage m s c t now d)) = swipes d
   \<and> matches (snd (sendMessage m s c t now d)) = matches d"
  by (simp add: sendMessage_def Let_def split: option.splits)

text \<open>
  Claim C4. Every operation of the core preserves the invariant of the matches table:
  every match has two distinct participants, there is at most one match per unordered
  pair of users, and both directed likes of a match are stored. \<open>recordSwipe\<close> and
  \<open>unmatchUsers\<close> leave the database as it is, and the messaging mutations write
  neither swipes nor matches.
\<close>

theorem match_inv_preserved:
  assumes "match_inv d"
  shows "match_inv (exec oper now d)"
proof (cases oper)
  case (RecordSwipe a b act)
  with assms show ?thesis by (simp add: recordSwipe_throws)
next
  case (UnmatchUsers m)
  with assms show ?thesis by (simp add: unmatchUsers_db)
next
  case (SendMessage m s c t)
  with assms match_inv_cong[of "snd (sendMessage m s c t now d)" d] sendMessage_tables[of m s c t now d]
  show ?thesis by simp
next
  case (MarkMessageAsRead i)
  with assms match_inv_cong[of "snd (markMessageAsRead i d)" d] markMessageAsRead_tables[of i d]
  show ?thesis by simp
next
  case (MarkConversationAsRead m u)
  with assms match_inv_cong[of "snd (markConversationAsRead m u d)" d]
    markConversationAsRead_tables[of m u d]
  show ?thesis by simp
qed

theorem match_inv_preserved_witness:
  "match_inv db_c4
   \<and> match_inv (exec (SendMessage 1 2 ''hi'' None) 9 db_c4)
   \<and> messages (exec (SendMessage 1 2 ''hi'' None) 9 db_c4) \<noteq> []
   \<and> match_inv (exec (RecordSwipe 3 3 Like) 9 db_c4)
   \<and> match_inv (exec (UnmatchUsers 1) 9 db_c4)"
proof -
  have i: "match_inv db_c4"
    by (simp add: match_inv_def has_like_def unordered_pair_def db_c4_def empty_db_def)
  have m: "messages (exec (SendMessage 1 2 ''hi'' None) 9 db_c4) \<noteq> []"
    by (simp add: sendMessage_def get_match_def db_c4_def empty_db_def Let_def)
  from i m match_inv_preserved[OF i, of "SendMessage 1 2 ''hi'' None" 9]
    match_inv_preserved[OF i, of "RecordSwipe 3 3 Like" 9]
    match_inv_preserved[OF i, of "UnmatchUsers 1" 9]
  show ?thesis by simp
qed

section \<open>Messaging\<close>

text \<open>
  Claim C9. \<open>sendMessage\<close> throws "Unauthorized to send message in this conversation"
  when the match does not exist or the sender is neither of its participants; when
  the sender is a participant and the match is inactive it throws the distinct
  "Cannot message in inactive match"; in both cases nothing has been written. When the
  sender is a participant and the match is active it stores one unread message under
  an identifier no stored message carries. The messages table changes only in that
  last case.
\<close>

theorem sendMessage_gatekeeper:
  "(get_match mid d = None \<longrightarrow> sendMessage mid sender cont mtype now d = (Inl Unauthorized, d))
   \<and> (\<forall>m. get_match mid d = Some m \<and> user1_id m \<noteq> sender \<and> user2_id m \<noteq> sender \<longrightarrow>
        sendMessage mid sender cont mtype now d = (Inl Unauthorized, d))
   \<and> (\<forall>m. get_match mid d = Some m \<and> (user1_id m = sender \<or> user2_id m = sender) \<and> \<not> is_active m \<longrightarrow>
        sendMessage mid sender cont mtype now d = (Inl InactiveMatch, d))
   \<and> (\<forall>m. get_match mid d = Some m \<and> (user1_id m = sender \<or> user2_id m = sender) \<and> is_active m \<longrightarrow>
        (\<exists>i. fst (sendMessage mid sender cont mtype now d) = Inr i \<and> i \<notin> msg_id ` set (messages d) \<and>
           messages (snd (sendMessage mid sender cont mtype now d)) = messages d @
             [\<lparr>msg_id = i, match_id = mid, sender_id = sender, content = cont,
               message_type = (case mtype of None \<Rightarrow> ''text'' | Some t \<Rightarrow> t),
               is_read = False, sent_at = now\<rparr>]))
   \<and> (messages (snd (sendMessage mid sender cont mtype now d)) \<noteq> messages d \<longrightarrow>
        (\<exists>m. get_match mid d = Some m \<and> (user1_id m = sender \<or> user2_id m = sender) \<and> is_active m))"
  using fresh_id_notin[of "map msg_id (messages d)"]
  by (auto simp: sendMessage_def Let_def split: option.splits)

theorem sendMessage_gatekeeper_witness:
  "get_match 1 db_c9 = Some \<lparr>m_id = 1, user1_id = 1, user2_id = 2, matched_at = 5, is_active = True,
       m_created_at = 5\<rparr>
   \<and> get_match 2 db_c9 = Some \<lparr>m_id = 2, user1_id = 1, user2_id = 3, matched_at = 6, is_active = False,
       m_created_at = 6\<rparr>
   \<and> get_match 7 db_c9 = None
   \<and> sendMessage 7 1 ''hi'' None 9 db_c9 = (Inl Unauthorized, db_c9)
   \<and> sendMessage 1 3 ''hi'' None 9 db_c9 = (Inl Unauthorized, db_c9)
   \<and> sendMessage 2 1 ''hi'' None 9 db_c9 = (Inl InactiveMatch, db_c9)
   \<and> fst (sendMessage 1 2 ''hi'' None 9 db_c9) = Inr 1
   \<and> messages (snd (sendMessage 1 2 ''hi'' None 9 db_c9)) =
        [\<lparr>msg_id = 1, match_id = 1, sender_id = 2, content = ''hi'', message_type = ''text'',
          is_read = False, sent_at = 9\<rparr>]"
proof -
  have g1: "get_match 1 db_c9 = Some \<lparr>m_id = 1, user1_id = 1, user2_id = 2, matched_at = 5,
       is_active = True, m_created_at = 5\<rparr>"
    by (simp add: get_match_def db_c9_def empty_db_def)
  have g2: "get_match 2 db_c9 = Some \<lparr>m_id = 2, user1_id = 1, user2_id = 3, matched_at = 6,
       is_active = False, m_created_at = 6\<rparr>"
    by (simp add: get_match_def db_c9_def empty_db_def)
  have g7: "get_match 7 db_c9 = None"
    by (simp add: get_match_def db_c9_def empty_db_def)
  have a: "sendMessage 7 1 ''hi'' None 9 db_c9 = (Inl Unauthorized, db_c9)"
    using sendMessage_gatekeeper[of 7 db_c9 1 "''hi''" None 9] g7 by simp
  have b: "sendMessage 1 3 ''hi'' None 9 db_c9 = (Inl Unauthorized, db_c9)"
    using sendMessage_gatekeeper[of 1 db_c9 3 "''hi''" None 9] g1 by simp
  have c: "sendMessage 2 1 ''hi'' None 9 db_c9 = (Inl InactiveMatch, db_c9)"
    using sendMessage_gatekeeper[of 2 db_c9 1 "''hi''" None 9] g2 by simp
  have e: "fst (sendMessage 1 2 ''hi'' None 9 db_c9) = Inr 1
     \<and> messages (snd (sendMessage 1 2 ''hi'' None 9 db_c9)) =
        [\<lparr>msg_id = 1, match_id = 1, sender_id = 2, content = ''hi'', message_type = ''text'',
          is_read = False, sent_at = 9\<rparr>]"
    using sendMessage_gatekeeper[of 1 db_c9 2 "''hi''" None 9]
    by (simp add: sendMessage_def get_match_def db_c9_def empty_db_def fresh_id_def Let_def)
  from g1 g2 g7 a b c e show ?thesis by simp
qed

text \<open>
  Claim C10. \<open>markMessageAsRead\<close> takes the message identifier only. When a message
  with that identifier is stored, the call succeeds in every database, whatever the
  matches table holds and whoever sent the message: it sets \<open>is_read\<close> of that message
  to true and changes no other field, no other message and no other table. (When no
  message has that identifier, \<open>db.patch\<close> fails and nothing is written.)
\<close>

theorem markMessageAsRead_unconditional:
  "(mid \<in> msg_id ` set (messages d) \<longrightarrow>
      (\<exists>pre m post. messages d = pre @ m # post \<and> msg_id m = mid \<and> mid \<notin> msg_id ` set pre \<and>
         markMessageAsRead mid d = (Inr (), d\<lparr>messages := pre @ m\<lparr>is_read := True\<rparr> # post\<rparr>)))
   \<and> (mid \<notin> msg_id ` set (messages d) \<longrightarrow> markMessageAsRead mid d = (Inl NoSuchDocument, d))"
proof (intro conjI impI)
  assume "mid \<in> msg_id ` set (messages d)"
  then have "patch_doc msg_id mid (\<lambda>m. m\<lparr>is_read := True\<rparr>) (messages d) \<noteq> None"
    by (simp add: patch_doc_None)
  then obtain ys where ys: "patch_doc msg_id mid (\<lambda>m. m\<lparr>is_read := True\<rparr>) (messages d) = Some ys"
    by blast
  from patch_doc_Some[OF ys] obtain pre m post where
    "messages d = pre @ m # post" "msg_id m = mid" "mid \<notin> msg_id ` set pre"
    "ys = pre @ m\<lparr>is_read := True\<rparr> # post"
    by blast
  with ys show "\<exists>pre m post. messages d = pre @ m # post \<and> msg_id m = mid \<and> mid \<notin> msg_id ` set pre \<and>
         markMessageAsRead mid d = (Inr (), d\<lparr>messages := pre @ m\<lparr>is_read := True\<rparr> # post\<rparr>)"
    by (auto simp: markMessageAsRead_def)
next
  assume "mid \<notin> msg_id ` set (messages d)"
  then have "patch_doc msg_id mid (\<lambda>m. m\<lparr>is_read := True\<rparr>) (messages d) = None"
    by (simp add: patch_doc_None)
  then show "markMessageAsRead mid d = (Inl NoSuchDocument, d)"
    by (simp add: markMessageAsRead_def)
qed

(* preservation *)

text \<open>
  In the witness the message was sent by user 1: \<open>markMessageAsRead\<close> marks it, also
  with the matches table emptied, while \<open>markConversationAsRead\<close> called by user 1
  leaves it unread.
\<close>

theorem markMessageAsRead_unconditional_witness:
  "(1::nat) \<in> msg_id ` set (messages db_c10)
   \<and> markMessageAsRead 1 db_c10 =
       (Inr (), db_c10\<lparr>messages := [\<lparr>msg_id = 1, match_id = 1, sender_id = 1, content = ''hi'',
          message_type = ''text'', is_read = True, sent_at = 6\<rparr>]\<rparr>)
   \<and> markMessageAsRead 1 (db_c10\<lparr>matches := []\<rparr>) =
       (Inr (), db_c10\<lparr>matches := [], messages := [\<lparr>msg_id = 1, match_id = 1, sender_id = 1,
          content = ''hi'', message_type = ''text'', is_read = True, sent_at = 6\<rparr>]\<rparr>)
   \<and> markConversationAsRead 1 1 db_c10 = (Inr (), db_c10)
   \<and> (2::nat) \<notin> msg_id ` set (messages db_c10)
   \<and> markMessageAsRead 2 db_c10 = (Inl NoSuchDocument, db_c10)"
  using markMessageAsRead_unconditional[of 1 db_c10] markMessageAsRead_unconditional[of 2 db_c10]
  by (simp add: db_c10_def empty_db_def markMessageAsRead_def markConversationAsRead_def get_match_def)

section \<open>Properties of the discovery feed\<close>

subsection \<open>Slicing\<close>

lemma getDiscoveryFeed_complete:
  assumes "filter (\<lambda>u. phone_number u = phone) (users d) = [R]"
    and "location R = Some loc" and "birth_date R = Some b" and "b \<noteq> 0"
  shows "getDiscoveryFeed fp (Some phone) now limit_arg offset_arg d =
         Inr (map (to_entry fp now)
               (js_slice (case offset_arg of None \<Rightarrow> 0 | Some v \<Rightarrow> v)
                  ((case offset_arg of None \<Rightarrow> 0 | Some v \<Rightarrow> v) + (case limit_arg of None \<Rightarrow> 20 | Some v \<Rightarrow> v))
                  (unswipedUsers fp R loc now d)))"
  using assms by (simp add: getDiscoveryFeed_def Let_def)

lemma js_slice_nonneg:
  "0 \<le> off \<Longrightarrow> 0 \<le> cnt \<Longrightarrow> js_slice off (off + cnt) xs = take (nat cnt) (drop (nat off) xs)"
proof -
  assume a: "0 \<le> off" "0 \<le> cnt"
  show ?thesis
  proof (cases "off \<le> int (length xs)")
    case True
    with a have "js_slice off (off + cnt) xs = take (nat (min (off + cnt) (int (length xs)) - off)) (drop (nat off) xs)"
      by (simp add: js_slice_def Let_def min_def)
    also have "\<dots> = take (nat cnt) (drop (nat off) xs)"
      using a True by (cases "off + cnt \<le> int (length xs)") (simp_all add: min_def)
    finally show ?thesis .
  next
    case False
    with a show ?thesis by (simp add: js_slice_def Let_def min_def)
  qed
qed




lemma js_slice_map: "js_slice a b (map f xs) = map f (js_slice a b xs)"
  by (simp add: js_slice_def Let_def take_map drop_map)

lemma js_slice_whole: "length xs \<le> n \<Longrightarrow> js_slice 0 (0 + int n) xs = xs"
  by (simp add: js_slice_def Let_def min_def)

lemma js_slice_beyond: "int (length xs) \<le> off \<Longrightarrow> js_slice off (off + cnt) xs = []"
  by (simp add: js_slice_def Let_def min_def max_def)


subsection \<open>The comparator sort\<close>


lemma length_insert_by: "length (insert_by after x ys) = Suc (length ys)"
  by (induction ys) auto


lemma length_sort_by: "length (sort_by after xs) = length xs"
  by (induction xs) (simp_all add: sort_by_def length_insert_by)














subsection \<open>The full candidate list\<close>

lemma length_unswipedUsers: "length (unswipedUsers fp R loc now d) \<le> length (users d)"
proof -
  have "length (unswipedUsers fp R loc now d) \<le> length (filteredUsers fp R loc now d)"
    by (simp add: unswipedUsers_def Let_def)
  also have "\<dots> = length (filter (passes_filter fp R loc) (potentialUsers R now d))"
    by (simp add: filteredUsers_def withDistance_def length_sort_by)
  also have "\<dots> \<le> length (potentialUsers R now d)" by simp
  also have "\<dots> \<le> length (users d)" by (simp add: potentialUsers_def Let_def)
  finally show ?thesis .
qed

lemma feed_is_slice:
  "getDiscoveryFeed fp idn now (Some l) (Some off) d
     = (case all_candidates fp idn now d of
          Inl e \<Rightarrow> Inl e
        | Inr F \<Rightarrow> Inr (js_slice off (off + l) F))"
proof -
  have whole: "js_slice 0 (int (length (users d))) (unswipedUsers fp R loc now d)
      = unswipedUsers fp R loc now d" for R loc
    using js_slice_whole[OF length_unswipedUsers[of fp R loc now d]] by simp
  have empty: "js_slice off (off + l) ([] :: feed_entry list) = []"
    by (simp add: js_slice_def)
  show ?thesis
    unfolding all_candidates_def getDiscoveryFeed_def Let_def option.case
    by (auto simp: whole empty js_slice_map split: option.splits sum.splits)
qed

lemma pages_disjoint:
  assumes "distinct xs"
  shows "set (take n (drop k xs)) \<inter> set (take m (drop (k + n) xs)) = {}"
proof -
  have "distinct (take n (drop k xs) @ drop n (drop k xs))"
    using assms by (simp only: append_take_drop_id distinct_drop)
  then have "set (take n (drop k xs)) \<inter> set (drop n (drop k xs)) = {}"
    by (simp only: distinct_append)
  moreover have "set (take m (drop (k + n) xs)) \<subseteq> set (drop n (drop k xs))"
    by (simp add: set_take_subset add.commute)
  ultimately show ?thesis by blast
qed

lemma pages_append: "take n (drop k xs) @ take m (drop (k + n) xs) = take (n + m) (drop k xs)"
proof -
  have "drop (k + n) xs = drop n (drop k xs)" by (simp add: add.commute)
  then show ?thesis by (simp add: take_add)
qed

subsection \<open>The feed on the concrete databases\<close>

text \<open>
  At users who share the requester's coordinate every intermediate value of
  \<open>calculateDistance\<close> is 0, 1 or a factor of a product that is 0, and the distance is
  0: double arithmetic computes these exactly, so \<open>exact_ops\<close> returns what the engine
  returns. The pole is a quarter of a great circle from the equator, \<open>6371 * (pi / 2)\<close>
  km without rounding.
\<close>

lemma home_distance: "calculateDistance exact_ops home home = Num 0"
  by (simp add: calculateDistance_def exact_ops_def atan2_def home_def)





lemma age_30: "calculateAge 825638400000 now0 = 30"
  by code_simp

lemma age_30_later: "calculateAge 825638400000 now1 = 30" "calculateAge 825638400000 now2 = 30"
  by code_simp+

lemma age_24: "calculateAge 983664000000 now0 = 24"
  by code_simp

lemma mk_user_sel [simp]:
  "u_id (mk_user i ph b) = i" "phone_number (mk_user i ph b) = ph"
  "birth_date (mk_user i ph b) = Some b" "location (mk_user i ph b) = Some home"
  "max_distance (mk_user i ph b) = Some 50" "age_min (mk_user i ph b) = Some 25"
  "age_max (mk_user i ph b) = Some 35" "show_me (mk_user i ph b) = Some ''everyone''"
  "first_name (mk_user i ph b) = None" "bio (mk_user i ph b) = None" "gender (mk_user i ph b) = None"
  by (simp_all add: mk_user_def)

lemma dist_mk_user: "distance_to exact_ops home (mk_user j ph' b') = Num 0"
  by (simp add: distance_to_def home_distance)

lemma passes_mk_user: "passes_filter exact_ops (mk_user i ph b) home (mk_user j ph' b') = True"
  unfolding passes_filter_def dist_mk_user by simp

lemma to_entry_mk_user:
  "b \<noteq> 0 \<Longrightarrow> to_entry exact_ops now (mk_user i ph b, Num 0) = entry i (calculateAge b now)"
  by (simp add: to_entry_def entry_def exact_ops_def)

lemma exact_sub_zero: "is_positive (f_sub exact_ops (Num 0) (Num 0)) = False"
  by (simp add: exact_ops_def)


lemma db_of_swipes [simp]: "swipes (db_of us) = []" "users (db_of us) = us"
  by (simp_all add: db_of_def empty_db_def)

lemma requester_row:
  "filter (\<lambda>u. phone_number u = ''+15550001'') (users db_c6) = [requester]"
  "filter (\<lambda>u. phone_number u = ''+15550001'') (users db_c7a) = [requester]"
  "filter (\<lambda>u. phone_number u = ''+15550001'') (users db_c7b) = [requester]"
  "filter (\<lambda>u. phone_number u = ''+15550001'') (users db_c8) = [requester]"
  by (simp_all add: db_c6_def db_c7a_def db_c7b_def db_c8_def db_of_def empty_db_def requester_def)

lemma requester_profile:
  "location requester = Some home" "birth_date requester = Some 825638400000"
  by (simp_all add: requester_def)

lemma requester_prefs:
  "age_min requester = Some 25" "age_max requester = Some 35"
  by (simp_all add: requester_def)



lemma times: "now0 \<le> now0" "now0 \<le> now2" "now0 \<le> now1" "now1 \<le> now2" "now2 \<le> now2"
  by (simp_all add: now1_def now2_def)

lemma pot_c6: "potentialUsers requester now0 db_c6 = [mk_user 2 ''+15550002'' 983664000000]"
  by (simp add: potentialUsers_def requester_def db_c6_def db_of_def empty_db_def now0_def)

lemma cands_c6:
  "unswipedUsers exact_ops requester home now0 db_c6 = [(mk_user 2 ''+15550002'' 983664000000, Num 0)]"
  unfolding unswipedUsers_def filteredUsers_def withDistance_def pot_c6
  by (simp add: passes_mk_user[of 1 "''+15550001''" 825638400000, folded requester_def] dist_mk_user
      db_c6_def sort_by_def)













lemma pot_c8:
  "now0 \<le> n \<Longrightarrow> n \<le> now2 \<Longrightarrow> potentialUsers requester n db_c8
    = [mk_user 2 ''+15550002'' 825638400000, mk_user 3 ''+15550003'' 825638400000,
       mk_user 4 ''+15550004'' 825638400000, mk_user 5 ''+15550005'' 825638400000,
       mk_user 6 ''+15550006'' 825638400000]"
  by (simp add: potentialUsers_def requester_def db_c8_def db_of_def empty_db_def now0_def now2_def)

lemma cands_c8:
  assumes "now0 \<le> n" and "n \<le> now2"
  shows "unswipedUsers exact_ops requester home n db_c8
     = [(mk_user 2 ''+15550002'' 825638400000, Num 0), (mk_user 3 ''+15550003'' 825638400000, Num 0),
        (mk_user 4 ''+15550004'' 825638400000, Num 0), (mk_user 5 ''+15550005'' 825638400000, Num 0),
        (mk_user 6 ''+15550006'' 825638400000, Num 0)]"
  unfolding unswipedUsers_def filteredUsers_def withDistance_def pot_c8[OF assms]
  by (simp add: passes_mk_user[of 1 "''+15550001''" 825638400000, folded requester_def] dist_mk_user
      db_c8_def sort_by_def exact_sub_zero)

lemma users_c8_length: "int (length (users db_c8)) = 6"
  by (simp add: db_c8_def)

lemma page_c8:
  "getDiscoveryFeed exact_ops (Some ''+15550001'') now0 (Some 2) (Some 0) db_c8 = Inr [entry 2 30, entry 3 30]"
  "getDiscoveryFeed exact_ops (Some ''+15550001'') now1 (Some 2) (Some 2) db_c8 = Inr [entry 4 30, entry 5 30]"
  "getDiscoveryFeed exact_ops (Some ''+15550001'') now0 (Some 2) (Some 2) db_c8 = Inr [entry 4 30, entry 5 30]"
  "getDiscoveryFeed exact_ops (Some ''+15550001'') now0 (Some 5) (Some 0) db_c8
       = Inr [entry 2 30, entry 3 30, entry 4 30, entry 5 30, entry 6 30]"
  using getDiscoveryFeed_complete[OF requester_row(4) requester_profile, of exact_ops now0 "Some 2" "Some 0"]
    getDiscoveryFeed_complete[OF requester_row(4) requester_profile, of exact_ops now1 "Some 2" "Some 2"]
    getDiscoveryFeed_complete[OF requester_row(4) requester_profile, of exact_ops now0 "Some 2" "Some 2"]
    getDiscoveryFeed_complete[OF requester_row(4) requester_profile, of exact_ops now0 "Some 5" "Some 0"]
  by (simp_all add: cands_c8 times js_slice_def to_entry_mk_user age_30 age_30_later)

lemma all_c8:
  "all_candidates exact_ops (Some ''+15550001'') now0 db_c8
       = Inr [entry 2 30, entry 3 30, entry 4 30, entry 5 30, entry 6 30]"
  "all_candidates exact_ops (Some ''+15550001'') now1 db_c8
       = Inr [entry 2 30, entry 3 30, entry 4 30, entry 5 30, entry 6 30]"
  "all_candidates exact_ops (Some ''+15550001'') now2 db_c8
       = Inr [entry 2 30, entry 3 30, entry 4 30, entry 5 30, entry 6 30]"
  unfolding all_candidates_def
  using getDiscoveryFeed_complete[OF requester_row(4) requester_profile, of exact_ops now0 "Some (int (length (users db_c8)))" "Some 0"]
    getDiscoveryFeed_complete[OF requester_row(4) requester_profile, of exact_ops now1 "Some (int (length (users db_c8)))" "Some 0"]
    getDiscoveryFeed_complete[OF requester_row(4) requester_profile, of exact_ops now2 "Some (int (length (users db_c8)))" "Some 0"]
  by (simp_all add: cands_c8 times js_slice_def to_entry_mk_user age_30 age_30_later users_c8_length)

subsection \<open>Incomplete profile\<close>

text \<open>
  Claim C5. When the requesting user's document has no location or no birth date,
  \<open>getDiscoveryFeed\<close> returns the empty list, for every limit and offset, and throws
  nothing.
\<close>

theorem getDiscoveryFeed_incomplete_profile:
  assumes "filter (\<lambda>u. phone_number u = phone) (users d) = [R]"
    and "location R = None \<or> birth_date R = None"
  shows "getDiscoveryFeed fp (Some phone) now limit offset d = Inr []"
  using assms by (auto simp: getDiscoveryFeed_def split: option.splits)

theorem getDiscoveryFeed_incomplete_profile_witness:
  "filter (\<lambda>u. phone_number u = ''+15550001'') (users db_c5) = [requester\<lparr>location := None\<rparr>]
   \<and> location (requester\<lparr>location := None\<rparr>) = None
   \<and> getDiscoveryFeed exact_ops (Some ''+15550001'') now0 (Some 5) (Some 0) db_c5 = Inr []"
proof -
  have r: "filter (\<lambda>u. phone_number u = ''+15550001'') (users db_c5) = [requester\<lparr>location := None\<rparr>]"
    by (simp add: db_c5_def requester_def)
  have l: "location (requester\<lparr>location := None\<rparr>) = None \<or> birth_date (requester\<lparr>location := None\<rparr>) = None"
    by simp
  from getDiscoveryFeed_incomplete_profile[OF r l, of exact_ops now0 "Some 5" "Some 0"] r show ?thesis by simp
qed

subsection \<open>Age range\<close>

text \<open>
  Claim C6. The query filters on \<open>birth_date\<close> against \<open>now - age * 365 days\<close>, and
  shows the age that \<open>calculateAge\<close> computes from the calendar. On 2026-03-01 a
  requester with \<open>age_min = 25\<close>, \<open>age_max = 35\<close> is shown a candidate born on
  2001-03-04, whose age is 24: 25 years of 365 days end six days before the 25th
  birthday.
\<close>

theorem feed_age_below_minimum:
  "age_min requester = Some 25 \<and> age_max requester = Some 35
   \<and> getDiscoveryFeed exact_ops (Some ''+15550001'') now0 None None db_c6 = Inr [entry 2 24]
   \<and> fe_age (entry 2 24) = Some 24"
  using getDiscoveryFeed_complete[OF requester_row(1) requester_profile, of exact_ops now0 None None]
  by (simp add: cands_c6 js_slice_def to_entry_mk_user age_24 requester_prefs) (simp add: entry_def)

subsection \<open>Order\<close>




subsection \<open>Pagination\<close>

text \<open>
  Claim C8, as amended. For every requester, the page that a call returns is the slice
  \<open>candidates[offset : offset + limit]\<close> of the full ordered candidate list of that
  call (and its error when the call has one). Over an unchanged candidate list, that
  is for calls, each with its own clock reading and database, whose full candidate
  lists are one and the same list, and non-negative offset and limits: the page of
  \<open>l1\<close> entries at \<open>offset\<close> followed by the page of \<open>l2\<close> entries at
  \<open>offset + l1\<close> is the page of \<open>l1 + l2\<close> entries at \<open>offset\<close>, so the pages
  (limit 2, offset 0) and (limit 2, offset 2) concatenate to the page (limit 4,
  offset 0); the two pages share no user when the candidates are distinct users; and
  an offset at or beyond the length of the list yields the empty page and no error.
\<close>

theorem getDiscoveryFeed_pagination:
  "getDiscoveryFeed fp idn now (Some l) (Some off) d
      = (case all_candidates fp idn now d of
           Inl e \<Rightarrow> Inl e
         | Inr F \<Rightarrow> Inr (js_slice off (off + l) F))
   \<and> (all_candidates fp idn n1 d1 = Inr F \<and> all_candidates fp idn n2 d2 = Inr F
        \<and> all_candidates fp idn n3 d3 = Inr F \<and> 0 \<le> off \<and> 0 \<le> l1 \<and> 0 \<le> l2 \<longrightarrow>
        (\<exists>p1 p2. getDiscoveryFeed fp idn n1 (Some l1) (Some off) d1 = Inr p1
           \<and> getDiscoveryFeed fp idn n2 (Some l2) (Some (off + l1)) d2 = Inr p2
           \<and> getDiscoveryFeed fp idn n3 (Some (l1 + l2)) (Some off) d3 = Inr (p1 @ p2)
           \<and> (distinct (map fe_user_id F) \<longrightarrow>
                set (map fe_user_id p1) \<inter> set (map fe_user_id p2) = {})))
   \<and> (all_candidates fp idn now d = Inr F \<and> int (length F) \<le> off \<longrightarrow>
        getDiscoveryFeed fp idn now (Some l) (Some off) d = Inr [])"
proof (intro conjI impI)
  show "getDiscoveryFeed fp idn now (Some l) (Some off) d
      = (case all_candidates fp idn now d of
           Inl e \<Rightarrow> Inl e
         | Inr F \<Rightarrow> Inr (js_slice off (off + l) F))"
    by (rule feed_is_slice)
next
  assume "all_candidates fp idn now d = Inr F \<and> int (length F) \<le> off"
  then show "getDiscoveryFeed fp idn now (Some l) (Some off) d = Inr []"
    by (simp add: feed_is_slice js_slice_beyond)
next
  assume a: "all_candidates fp idn n1 d1 = Inr F \<and> all_candidates fp idn n2 d2 = Inr F
        \<and> all_candidates fp idn n3 d3 = Inr F \<and> 0 \<le> off \<and> 0 \<le> l1 \<and> 0 \<le> l2"
  then have nn: "0 \<le> off" "0 \<le> l1" "0 \<le> l2" by simp_all
  have nat_add: "nat (off + l1) = nat off + nat l1" "nat (l1 + l2) = nat l1 + nat l2"
    using nn by (simp_all add: nat_add_distrib)
  let ?p1 = "take (nat l1) (drop (nat off) F)"
  let ?p2 = "take (nat l2) (drop (nat off + nat l1) F)"
  have p1: "getDiscoveryFeed fp idn n1 (Some l1) (Some off) d1 = Inr ?p1"
    using a nn by (simp add: feed_is_slice js_slice_nonneg)
  have p2: "getDiscoveryFeed fp idn n2 (Some l2) (Some (off + l1)) d2 = Inr ?p2"
    using a nn by (simp add: feed_is_slice js_slice_nonneg nat_add)
  have "getDiscoveryFeed fp idn n3 (Some (l1 + l2)) (Some off) d3
      = Inr (take (nat l1 + nat l2) (drop (nat off) F))"
    using a nn by (simp add: feed_is_slice js_slice_nonneg nat_add)
  then have p3: "getDiscoveryFeed fp idn n3 (Some (l1 + l2)) (Some off) d3 = Inr (?p1 @ ?p2)"
    by (simp only: pages_append)
  have dj: "set (map fe_user_id ?p1) \<inter> set (map fe_user_id ?p2) = {}"
    if "distinct (map fe_user_id F)"
    using that unfolding take_map[symmetric] drop_map[symmetric] by (rule pages_disjoint)
  from p1 p2 p3 dj
  show "\<exists>p1 p2. getDiscoveryFeed fp idn n1 (Some l1) (Some off) d1 = Inr p1
           \<and> getDiscoveryFeed fp idn n2 (Some l2) (Some (off + l1)) d2 = Inr p2
           \<and> getDiscoveryFeed fp idn n3 (Some (l1 + l2)) (Some off) d3 = Inr (p1 @ p2)
           \<and> (distinct (map fe_user_id F) \<longrightarrow>
                set (map fe_user_id p1) \<inter> set (map fe_user_id p2) = {})"
    by blast
qed

text \<open>
  In the witness the three calls are made one minute apart, over five eligible
  candidates.
\<close>

theorem getDiscoveryFeed_pagination_witness:
  "all_candidates exact_ops (Some ''+15550001'') now0 db_c8
       = Inr [entry 2 30, entry 3 30, entry 4 30, entry 5 30, entry 6 30]
   \<and> all_candidates exact_ops (Some ''+15550001'') now1 db_c8
       = Inr [entry 2 30, entry 3 30, entry 4 30, entry 5 30, entry 6 30]
   \<and> all_candidates exact_ops (Some ''+15550001'') now2 db_c8
       = Inr [entry 2 30, entry 3 30, entry 4 30, entry 5 30, entry 6 30]
   \<and> distinct (map fe_user_id [entry 2 30, entry 3 30, entry 4 30, entry 5 30, entry 6 30])
   \<and> getDiscoveryFeed exact_ops (Some ''+15550001'') now0 (Some 2) (Some 0) db_c8
        = Inr [entry 2 30, entry 3 30]
   \<and> getDiscoveryFeed exact_ops (Some ''+15550001'') now1 (Some 2) (Some (0 + 2)) db_c8
        = Inr [entry 4 30, entry 5 30]
   \<and> getDiscoveryFeed exact_ops (Some ''+15550001'') now2 (Some (2 + 2)) (Some 0) db_c8
        = Inr ([entry 2 30, entry 3 30] @ [entry 4 30, entry 5 30])
   \<and> set (map fe_user_id [entry 2 30, entry 3 30]) \<inter> set (map fe_user_id [entry 4 30, entry 5 30]) = {}
   \<and> getDiscoveryFeed exact_ops (Some ''+15550001'') now0 (Some 2) (Some 7) db_c8 = Inr []"
proof -
  let ?F = "[entry 2 30, entry 3 30, entry 4 30, entry 5 30, entry 6 30]"
  have dst: "distinct (map fe_user_id ?F)" by (simp add: entry_def)
  have beyond: "getDiscoveryFeed exact_ops (Some ''+15550001'') now0 (Some 2) (Some 7) db_c8 = Inr []"
    by (rule getDiscoveryFeed_pagination[where F = "?F", THEN conjunct2, THEN conjunct2, rule_format])
      (simp add: all_c8(1))
  have prem: "all_candidates exact_ops (Some ''+15550001'') now0 db_c8 = Inr ?F
      \<and> all_candidates exact_ops (Some ''+15550001'') now1 db_c8 = Inr ?F
      \<and> all_candidates exact_ops (Some ''+15550001'') now2 db_c8 = Inr ?F
      \<and> (0::int) \<le> 0 \<and> (0::int) \<le> 2 \<and> (0::int) \<le> 2"
    using all_c8 by simp
  from getDiscoveryFeed_pagination[THEN conjunct2, THEN conjunct1, rule_format, OF prem]
  obtain p1 p2 where
    a: "getDiscoveryFeed exact_ops (Some ''+15550001'') now0 (Some 2) (Some 0) db_c8 = Inr p1"
    and b: "getDiscoveryFeed exact_ops (Some ''+15550001'') now1 (Some 2) (Some (0 + 2)) db_c8 = Inr p2"
    and c: "getDiscoveryFeed exact_ops (Some ''+15550001'') now2 (Some (2 + 2)) (Some 0) db_c8 = Inr (p1 @ p2)"
    and e': "distinct (map fe_user_id ?F) \<longrightarrow> set (map fe_user_id p1) \<inter> set (map fe_user_id p2) = {}"
    by blast
  from e' dst have e: "set (map fe_user_id p1) \<inter> set (map fe_user_id p2) = {}" by (rule mp)
  from a page_c8(1) have p1: "p1 = [entry 2 30, entry 3 30]" by simp
  from b page_c8(2) have p2: "p2 = [entry 4 30, entry 5 30]" by simp
  show ?thesis
    by (intro conjI)
      (rule all_c8 dst a[unfolded p1] b[unfolded p2] c[unfolded p1 p2] e[unfolded p1 p2] beyond)+
qed

text \<open>
  The claim as stated fails: over five eligible candidates the pages (2, 0) and (2, 2)
  hold four entries together, the page (5, 0) holds five.
\<close>

theorem feed_pages_counterexample:
  "getDiscoveryFeed exact_ops (Some ''+15550001'') now0 (Some 2) (Some 0) db_c8 = Inr [entry 2 30, entry 3 30]
   \<and> getDiscoveryFeed exact_ops (Some ''+15550001'') now0 (Some 2) (Some 2) db_c8 = Inr [entry 4 30, entry 5 30]
   \<and> getDiscoveryFeed exact_ops (Some ''+15550001'') now0 (Some 5) (Some 0) db_c8
       = Inr [entry 2 30, entry 3 30, entry 4 30, entry 5 30, entry 6 30]
   \<and> [entry 2 30, entry 3 30] @ [entry 4 30, entry 5 30]
       \<noteq> [entry 2 30, entry 3 30, entry 4 30, entry 5 30, entry 6 30]"
  by (simp add: page_c8)

end
